theory Spec2Isabelle
  imports Main "HOL-Library.Sublist"
begin

section \<open>Values, tools and capabilities\<close>

text \<open>
  The scripts of the repository (the DexScreener script, the CoinGecko script, the
  swap script and the Allora script) turn the tools of a plugin into capabilities of an
  agent host. The values that cross this boundary are JavaScript values. The embedding
  covers \<open>undefined\<close>, \<open>null\<close>, booleans, integer-valued numbers (which the
  language prints as plain decimal numerals), strings, arrays and plain objects. A string
  is a list of code units, one \<open>char\<close> each; an object is the list of its own
  enumerable properties in enumeration order. Fractional numbers, \<open>NaN\<close> and the
  infinities are floating point and stay outside the embedding.
\<close>

datatype jsval =
    JUndefined
  | JNull
  | JBool bool
  | JNum int
  | JStr string
  | JArr "jsval list"
  | JObj "(string \<times> jsval) list"

text \<open>
  A thrown value is either an \<open>Error\<close> (with its \<open>message\<close>) or any other value:
  the \<open>catch\<close> blocks of the scripts ask \<open>error instanceof Error\<close>.
\<close>

datatype thrown = ErrorObj string | NonError jsval

text \<open>
  What awaiting a promise yields: a value, a thrown value, or nothing at all when the
  promise never settles (the scripts impose no timeout).
\<close>

datatype outcome = Returned jsval | Threw thrown | Pending

text \<open>\<open>ToolBase\<close> of the tool SDK: name, description, parameter schema, execute.\<close>

record 's tool =
  tool_name :: string
  tool_description :: string
  tool_parameters :: 's
  tool_execute :: "jsval \<Rightarrow> outcome"

text \<open>
  What a run of a capability does besides returning: it calls \<open>execute\<close> of a tool
  and it writes to the console.
\<close>

datatype 's event =
    Executed "'s tool" jsval
  | ConsoleError string thrown
  | ConsoleLog string "jsval list"

text \<open>\<open>toolNameMap\<close>, the module-level \<open>Map\<close> from formatted names to tools.\<close>

type_synonym 's registry = "string \<rightharpoonup> 's tool"

text \<open>
  \<open>Capability\<close> of the agent SDK. The \<open>run\<close> closure reads the module-level
  \<open>toolNameMap\<close> when it is called, so the model passes it the map of that moment.
\<close>

record 's capability =
  cap_name :: string
  cap_description :: string
  cap_schema :: 's
  cap_run :: "'s registry \<Rightarrow> jsval \<Rightarrow> outcome \<times> 's event list"

fun executions :: "'s event list \<Rightarrow> ('s tool \<times> jsval) list" where
  "executions [] = []"
| "executions (Executed t a # es) = (t, a) # executions es"
| "executions (_ # es) = executions es"

section \<open>The built-in string conversions\<close>

text \<open>
  \<open>Number.prototype.toString\<close> on an integer-valued number: decimal digits, with a
  minus sign below zero.
\<close>

definition digit_char :: "nat \<Rightarrow> char" where
  "digit_char d = char_of (48 + d)"

fun show_nat :: "nat \<Rightarrow> string" where
  "show_nat n = (if n < 10 then [digit_char n] else show_nat (n div 10) @ [digit_char (n mod 10)])"

declare show_nat.simps [simp del]

definition show_int :: "int \<Rightarrow> string" where
  "show_int i = (if i < 0 then CHR ''-'' # show_nat (nat (- i)) else show_nat (nat i))"

text \<open>\<open>Array.prototype.join\<close> on strings.\<close>

fun join :: "string \<Rightarrow> string list \<Rightarrow> string" where
  "join sep [] = []"
| "join sep [s] = s"
| "join sep (s # t # ts) = s @ sep @ join sep (t # ts)"

text \<open>
  \<open>QuoteJSONString\<close> of the language standard: the two-character escapes of its
  table, \<open>\u00XX\<close> with lower-case hexadecimal digits for the other control
  characters, every other code unit as it is.
\<close>

definition hex_char :: "nat \<Rightarrow> char" where
  "hex_char d = (if d < 10 then char_of (48 + d) else char_of (87 + d))"

definition quote_char :: "char \<Rightarrow> string" where
  "quote_char c =
     (if c = CHR 0x08 then [CHR 0x5C, CHR ''b'']
      else if c = CHR 0x09 then [CHR 0x5C, CHR ''t'']
      else if c = CHR 0x0A then [CHR 0x5C, CHR ''n'']
      else if c = CHR 0x0C then [CHR 0x5C, CHR ''f'']
      else if c = CHR 0x0D then [CHR 0x5C, CHR ''r'']
      else if c = CHR 0x22 then [CHR 0x5C, CHR 0x22]
      else if c = CHR 0x5C then [CHR 0x5C, CHR 0x5C]
      else if (of_char c :: nat) < 32
        then [CHR 0x5C, CHR ''u'', CHR ''0'', CHR ''0'',
              hex_char (of_char c div 16), hex_char (of_char c mod 16)]
      else [c])"

definition QuoteJSONString :: "string \<Rightarrow> string" where
  "QuoteJSONString s = CHR 0x22 # concat (map quote_char s) @ [CHR 0x22]"

text \<open>
  \<open>JSON.stringify(value, null, 2)\<close>: \<open>SerializeJSONProperty\<close> of the standard with
  the gap of two spaces, at nesting depth \<open>d\<close>. \<open>None\<close> is the result \<open>undefined\<close>.
  A property whose value serializes to \<open>undefined\<close> is left out of an object; such an
  element of an array is written \<open>null\<close>.
\<close>

definition indent :: "nat \<Rightarrow> string" where
  "indent d = replicate (2 * d) CHR '' ''"

definition bracketed :: "nat \<Rightarrow> char \<Rightarrow> char \<Rightarrow> string list \<Rightarrow> string" where
  "bracketed d l r partial =
     (if partial = [] then [l, r]
      else [l] @ [CHR 0x0A] @ indent (Suc d)
           @ join ([CHR '','', CHR 0x0A] @ indent (Suc d)) partial
           @ [CHR 0x0A] @ indent d @ [r])"

fun SerializeJSONProperty :: "nat \<Rightarrow> jsval \<Rightarrow> string option" where
  "SerializeJSONProperty d JUndefined = None"
| "SerializeJSONProperty d JNull = Some ''null''"
| "SerializeJSONProperty d (JBool b) = Some (if b then ''true'' else ''false'')"
| "SerializeJSONProperty d (JNum n) = Some (show_int n)"
| "SerializeJSONProperty d (JStr s) = Some (QuoteJSONString s)"
| "SerializeJSONProperty d (JArr xs) =
     Some (bracketed d CHR ''['' CHR '']''
       (map (\<lambda>x. case SerializeJSONProperty (Suc d) x of None \<Rightarrow> ''null'' | Some s \<Rightarrow> s) xs))"
| "SerializeJSONProperty d (JObj ps) =
     Some (bracketed d CHR ''{'' CHR ''}''
       (concat (map (\<lambda>(k, v). case SerializeJSONProperty (Suc d) v of
                                 None \<Rightarrow> []
                               | Some s \<Rightarrow> [QuoteJSONString k @ '': '' @ s]) ps)))"

definition JSON_stringify :: "jsval \<Rightarrow> jsval" where
  "JSON_stringify v = (case SerializeJSONProperty 0 v of None \<Rightarrow> JUndefined | Some s \<Rightarrow> JStr s)"

text \<open>
  The abstract operation \<open>ToString\<close> (what a template literal applies to a value) and
  the method call \<open>value.toString()\<close>, which throws a \<open>TypeError\<close> on \<open>undefined\<close>
  and \<open>null\<close>. The message texts are those of Node.js, the runtime of the scripts.
\<close>

fun ToString :: "jsval \<Rightarrow> string" where
  "ToString JUndefined = ''undefined''"
| "ToString JNull = ''null''"
| "ToString (JBool b) = (if b then ''true'' else ''false'')"
| "ToString (JNum n) = show_int n"
| "ToString (JStr s) = s"
| "ToString (JArr xs) =
     join '','' (map (\<lambda>x. if x = JUndefined \<or> x = JNull then [] else ToString x) xs)"
| "ToString (JObj ps) = ''[object Object]''"

definition toString :: "jsval \<Rightarrow> thrown + string" where
  "toString v =
     (if v = JUndefined then Inl (ErrorObj ''Cannot read properties of undefined (reading 'toString')'')
      else if v = JNull then Inl (ErrorObj ''Cannot read properties of null (reading 'toString')'')
      else Inr (ToString v))"

definition typeof :: "jsval \<Rightarrow> string" where
  "typeof v =
     (case v of JUndefined \<Rightarrow> ''undefined'' | JNull \<Rightarrow> ''object'' | JBool _ \<Rightarrow> ''boolean''
      | JNum _ \<Rightarrow> ''number'' | JStr _ \<Rightarrow> ''string'' | JArr _ \<Rightarrow> ''object''
      | JObj _ \<Rightarrow> ''object'')"

section \<open>JSON.parse\<close>






















section \<open>formatToolName\<close>

text \<open>
  \<^verbatim>\<open>const formatToolName = (name) => name.replace(/\./g, '_');\<close>
  The global regular expression matches every single dot, scanning left to right.
\<close>

fun formatToolName :: "string \<Rightarrow> string" where
  "formatToolName [] = []"
| "formatToolName (c # cs) =
     (if c = CHR ''.'' then CHR ''_'' # formatToolName cs else c # formatToolName cs)"

section \<open>The run closure of the DexScreener and CoinGecko scripts\<close>

text \<open>
  Both scripts build a capability with the same closure:
  \<^verbatim>\<open>
  async run({ args }) {
      try {
          const originalTool = toolNameMap.get(formattedName);
          if (!originalTool) {
              throw new Error(`Original tool not found for ${formattedName}`);
          }
          const response = await originalTool.execute(args);
          if (typeof response === 'object') {
              return JSON.stringify(response, null, 2);
          }
          return response.toString();
      } catch (error) {
          console.error(`Error in capability ${formattedName}:`, error);
          return `An error occurred while running ${formattedName}: ${
              error instanceof Error ? error.message : 'Unknown error'}`;
      }
  }
  \<close>
\<close>

definition normalise :: "jsval \<Rightarrow> thrown + jsval" where
  "normalise response =
     (if typeof response = ''object'' then Inr (JSON_stringify response)
      else (case toString response of Inl e \<Rightarrow> Inl e | Inr s \<Rightarrow> Inr (JStr s)))"

definition try_block :: "string \<Rightarrow> 's registry \<Rightarrow> jsval \<Rightarrow> outcome \<times> 's event list" where
  "try_block formattedName toolNameMap args =
     (case toolNameMap formattedName of
        None \<Rightarrow> (Threw (ErrorObj (''Original tool not found for '' @ formattedName)), [])
      | Some originalTool \<Rightarrow>
          (case tool_execute originalTool args of
             Returned response \<Rightarrow>
               (case normalise response of
                  Inl e \<Rightarrow> (Threw e, [Executed originalTool args])
                | Inr v \<Rightarrow> (Returned v, [Executed originalTool args]))
           | Threw e \<Rightarrow> (Threw e, [Executed originalTool args])
           | Pending \<Rightarrow> (Pending, [Executed originalTool args])))"

definition catch_block :: "string \<Rightarrow> thrown \<Rightarrow> outcome \<times> 's event list" where
  "catch_block label error =
     (Returned (JStr (''An error occurred while running '' @ label @ '': '' @
        (case error of ErrorObj message \<Rightarrow> message | NonError _ \<Rightarrow> ''Unknown error''))),
      [ConsoleError (''Error in capability '' @ label @ '':'') error])"

definition run :: "string \<Rightarrow> 's registry \<Rightarrow> jsval \<Rightarrow> outcome \<times> 's event list" where
  "run formattedName toolNameMap args =
     (case try_block formattedName toolNameMap args of
        (Threw error, evs) \<Rightarrow>
          (case catch_block formattedName error of (r, evs') \<Rightarrow> (r, evs @ evs'))
      | (Returned v, evs) \<Rightarrow> (Returned v, evs)
      | (Pending, evs) \<Rightarrow> (Pending, evs))"

text \<open>
  \<open>toCapability\<close> of the two scripts: the closure keeps \<open>formattedName\<close>, computed
  once when the capability is built.
\<close>

definition toCapability :: "'s tool \<Rightarrow> 's capability" where
  "toCapability tool =
     (let formattedName = formatToolName (tool_name tool) in
      \<lparr>cap_name = formattedName,
       cap_description = tool_description tool,
       cap_schema = tool_parameters tool,
       cap_run = run formattedName\<rparr>)"

text \<open>
  The registration loop of both scripts:
  \<^verbatim>\<open>tools.forEach(tool => { toolNameMap.set(formatToolName(tool.name), tool); });\<close>
\<close>

definition register_all :: "'s tool list \<Rightarrow> 's registry \<Rightarrow> 's registry" where
  "register_all tools toolNameMap =
     fold (\<lambda>tool m. m(formatToolName (tool_name tool) \<mapsto> tool)) tools toolNameMap"

text \<open>
  \<open>main\<close> of the DexScreener script, from the discovered tools to the capabilities
  and the filled map. Console output of the set-up is not part of the model.
\<close>

definition dexscreener_main :: "'s tool list \<Rightarrow> 's capability list \<times> 's registry" where
  "dexscreener_main allTools =
     (let tools = filter (\<lambda>tool. prefix ''dexscreener'' (tool_name tool)) allTools
      in (map toCapability tools, register_all tools Map.empty))"

text \<open>
  \<open>main\<close> of the CoinGecko script. \<open>String.prototype.includes\<close> is the search for
  a contiguous occurrence; the loop over the tools shortens a long description in place:
  \<^verbatim>\<open>
  const descLength = tool.description ? tool.description.length : 0;
  if (descLength > 1000) {
      tool.description = tool.description.substring(0, 1000) + "... (truncated)";
  }
  \<close>
\<close>

fun str_includes :: "string \<Rightarrow> string \<Rightarrow> bool" where
  "str_includes [] search = (search = [])"
| "str_includes (c # cs) search = (prefix search (c # cs) \<or> str_includes cs search)"

definition truncate_description :: "'s tool \<Rightarrow> 's tool" where
  "truncate_description tool =
     (let descLength = (if tool_description tool \<noteq> [] then length (tool_description tool) else 0)
      in if descLength > 1000
         then tool\<lparr>tool_description := take 1000 (tool_description tool) @ ''... (truncated)''\<rparr>
         else tool)"

definition coingecko_main :: "'s tool list \<Rightarrow> 's capability list \<times> 's registry" where
  "coingecko_main allTools =
     (let tools = filter (\<lambda>tool. \<not> str_includes (tool_name tool) ''get_chain'') allTools;
          tools = map truncate_description tools
      in (map toCapability tools, register_all tools Map.empty))"

section \<open>The swap script\<close>

text \<open>
  \<open>'userPublicKey' in args\<close> (and \<open>'tools' in body\<close> further down): the operator
  throws a \<open>TypeError\<close> when its right operand is not an object. Neither name is an
  array index, \<open>length\<close> or a member of a built-in prototype, so only an own property
  of a plain object answers true.
\<close>

definition js_in :: "string \<Rightarrow> jsval \<Rightarrow> thrown + bool" where
  "js_in k v =
     (case v of
        JObj ps \<Rightarrow> Inr (k \<in> set (map fst ps))
      | JArr xs \<Rightarrow> Inr False
      | _ \<Rightarrow> Inl (ErrorObj (''Cannot use 'in' operator to search for '' @ [CHR 0x27] @ k
                            @ [CHR 0x27] @ '' in '' @ ToString v)))"

text \<open>
  \<open>tool.name.split('.').pop()\<close>: the segments between the dots, then the last one.
  \<open>nameMap[baseName]\<close> reads a property of an object literal: an own property gives its
  string, a name that \<open>Object.prototype\<close> provides gives that member (a function or an
  object, truthy and not a string), any other name gives \<open>undefined\<close>.
\<close>

fun split :: "char \<Rightarrow> string \<Rightarrow> string list" where
  "split sep [] = [[]]"
| "split sep (c # cs) =
     (if c = sep then [] # split sep cs
      else (case split sep cs of [] \<Rightarrow> [[c]] | s # ss \<Rightarrow> (c # s) # ss))"

definition pop :: "'a list \<Rightarrow> 'a option" where
  "pop xs = (if xs = [] then None else Some (last xs))"

definition object_prototype_names :: "string list" where
  "object_prototype_names =
     [''constructor'', ''__defineGetter__'', ''__defineSetter__'', ''hasOwnProperty'',
      ''__lookupGetter__'', ''__lookupSetter__'', ''isPrototypeOf'', ''propertyIsEnumerable'',
      ''toString'', ''valueOf'', ''__proto__'', ''toLocaleString'']"

datatype property = Text string | Member string | Absent

definition get_property :: "(string \<times> string) list \<Rightarrow> string \<Rightarrow> property" where
  "get_property obj k =
     (case map_of obj k of
        Some v \<Rightarrow> Text v
      | None \<Rightarrow> if k \<in> set object_prototype_names then Member k else Absent)"

text \<open>\<open>p || fallback\<close> for a property \<open>p\<close> and a string \<open>fallback\<close>.\<close>

definition or_else :: "property \<Rightarrow> string \<Rightarrow> property" where
  "or_else p fallback =
     (case p of Text v \<Rightarrow> if v \<noteq> [] then Text v else Text fallback
      | Member k \<Rightarrow> Member k
      | Absent \<Rightarrow> Text fallback)"

definition functionName_of :: "string \<Rightarrow> string" where
  "functionName_of name =
     (case pop (split CHR ''.'' name) of
        Some s \<Rightarrow> if s \<noteq> [] then s else name
      | None \<Rightarrow> name)"

datatype toolType = Dexscreener | Jupiter

definition nameMap :: "(string \<times> string) list" where
  "nameMap = [(''get_quote'', ''get_quote''), (''quote'', ''get_quote''),
              (''swapTokens'', ''swap''), (''swap'', ''swap'')]"

text \<open>
  The closure of the swap script checks the caller's key before the \<open>try\<close>:
  \<^verbatim>\<open>
  async run({ args }) {
    if (toolType === 'jupiter' && formattedName === 'swap' && !('userPublicKey' in args)) {
      return "Error: Missing userPublicKey for swap operation.";
    }
    try { ... } catch (error) { ... }   // as in the other scripts
  }
  \<close>
\<close>

definition run_swap ::
  "toolType \<Rightarrow> string \<Rightarrow> 's registry \<Rightarrow> jsval \<Rightarrow> outcome \<times> 's event list" where
  "run_swap toolType formattedName toolNameMap args =
     (if toolType = Jupiter \<and> formattedName = ''swap''
      then (case js_in ''userPublicKey'' args of
              Inl e \<Rightarrow> (Threw e, [])
            | Inr present \<Rightarrow>
                if \<not> present
                then (Returned (JStr ''Error: Missing userPublicKey for swap operation.''), [])
                else run formattedName toolNameMap args)
      else run formattedName toolNameMap args)"

text \<open>
  \<open>toCapability(tool, toolType)\<close> of the swap script computes the name, writes the
  tool into \<open>toolNameMap\<close> and returns the capability. \<open>formatToolName\<close> calls
  \<open>replace\<close> on its argument, which throws when the alias table answered with a member
  of \<open>Object.prototype\<close>; the map is then left as it was.
\<close>

definition toCapability_swap ::
  "'s registry \<Rightarrow> 's tool \<Rightarrow> toolType \<Rightarrow> thrown + ('s capability \<times> 's registry)" where
  "toCapability_swap toolNameMap tool toolType =
     (let functionName = functionName_of (tool_name tool);
          baseName = (if functionName \<noteq> [] then functionName else tool_name tool);
          baseName = (if toolType = Jupiter then or_else (get_property nameMap baseName) baseName
                      else Text baseName)
      in case baseName of
           Text b \<Rightarrow>
             (let formattedName = formatToolName b in
              Inr (\<lparr>cap_name = formattedName,
                    cap_description = tool_description tool,
                    cap_schema = tool_parameters tool,
                    cap_run = run_swap toolType formattedName\<rparr>,
                   toolNameMap(formattedName \<mapsto> tool)))
         | _ \<Rightarrow> Inl (ErrorObj ''name.replace is not a function''))"

section \<open>The Allora script\<close>

text \<open>
  The Allora script has no \<open>toolNameMap\<close>. Its closure calls the tool it was built
  from and names the tool, not the capability, in its messages:
  \<^verbatim>\<open>
  async run({ args }) {
      console.log(`Running capability ${capabilityName} with args:`, args);
      try {
          const response = await tool.execute(args);
          console.log(`Tool ${tool.name} response:`, response);
          if (typeof response === 'object') { return JSON.stringify(response, null, 2); }
          return response.toString();
      } catch (error) {
          console.error(`Error in capability ${tool.name}:`, error);
          return `An error occurred while running ${tool.name}: ${...}`;
      }
  }
  \<close>
  The capability type of the model hands every closure the map of the moment; this one
  does not look at it.
\<close>

definition nameMap_allora :: "(string \<times> string) list" where
  "nameMap_allora = [(''get_price_prediction'', ''get_price_prediction''),
                     (''price_prediction'', ''get_price_prediction'')]"

definition run_allora :: "'s tool \<Rightarrow> string \<Rightarrow> jsval \<Rightarrow> outcome \<times> 's event list" where
  "run_allora tool capabilityName args =
     (let started = [ConsoleLog (''Running capability '' @ capabilityName @ '' with args:'') [args],
                     Executed tool args]
      in case tool_execute tool args of
           Returned response \<Rightarrow>
             (let logged = started @ [ConsoleLog (''Tool '' @ tool_name tool @ '' response:'') [response]]
              in case normalise response of
                   Inr v \<Rightarrow> (Returned v, logged)
                 | Inl e \<Rightarrow> (case catch_block (tool_name tool) e of (r, evs) \<Rightarrow> (r, logged @ evs)))
         | Threw e \<Rightarrow> (case catch_block (tool_name tool) e of (r, evs) \<Rightarrow> (r, started @ evs))
         | Pending \<Rightarrow> (Pending, started))"

text \<open>
  \<open>toCapability\<close> of the Allora script. When the alias table answers with a member of
  \<open>Object.prototype\<close> the capability's name is not a string; the model has no such
  capability and gives \<open>None\<close>.
\<close>

definition toCapability_allora :: "'s tool \<Rightarrow> 's capability option" where
  "toCapability_allora tool =
     (let functionName = functionName_of (tool_name tool);
          baseName = (if functionName \<noteq> [] then functionName else tool_name tool)
      in case or_else (get_property nameMap_allora baseName) baseName of
           Text capabilityName \<Rightarrow>
             Some \<lparr>cap_name = capabilityName,
                   cap_description = tool_description tool,
                   cap_schema = tool_parameters tool,
                   cap_run = (\<lambda>toolNameMap. run_allora tool capabilityName)\<rparr>
         | _ \<Rightarrow> None)"

section \<open>The request observer\<close>

text \<open>
  The DexScreener script and the swap script replace the completion call of the agent's
  client by a wrapper around the original, bound call:
  \<^verbatim>\<open>
  agent.openai.chat.completions.create = async function (
      ...args: Parameters<typeof originalCreateChatCompletion>
  ): ReturnType<typeof originalCreateChatCompletion> {
      const [body, ...rest] = args;
      if (body && 'tools' in body) {
          console.log("--- OpenAI Request (Tools): ---");
          console.log(JSON.stringify(body.tools, null, 2));
      }
      return originalCreateChatCompletion(...args);
  } as typeof originalCreateChatCompletion;
  \<close>
  The original call is a parameter of the model, a function from the argument list to
  what the call yields. A wrapped call either yields that or throws before it gets
  there; besides, it writes to the console and calls the original.
\<close>

datatype call_event = Logged "jsval list" | Delegated "jsval list"


definition truthy :: "jsval \<Rightarrow> bool" where
  "truthy v =
     (case v of JUndefined \<Rightarrow> False | JNull \<Rightarrow> False | JBool b \<Rightarrow> b | JNum n \<Rightarrow> n \<noteq> 0
      | JStr s \<Rightarrow> s \<noteq> [] | JArr _ \<Rightarrow> True | JObj _ \<Rightarrow> True)"

text \<open>\<open>body.tools\<close>, the read of an own property; \<open>undefined\<close> when there is none.\<close>

definition get_member :: "jsval \<Rightarrow> string \<Rightarrow> jsval" where
  "get_member v k =
     (case v of
        JObj ps \<Rightarrow> (case map_of ps k of Some x \<Rightarrow> x | None \<Rightarrow> JUndefined)
      | _ \<Rightarrow> JUndefined)"

definition create_observed ::
  "(jsval list \<Rightarrow> 'r) \<Rightarrow> jsval list \<Rightarrow> (thrown + 'r) \<times> call_event list" where
  "create_observed originalCreateChatCompletion args =
     (let body = (case args of [] \<Rightarrow> JUndefined | b # rest \<Rightarrow> b) in
      if truthy body
      then (case js_in ''tools'' body of
              Inl e \<Rightarrow> (Inl e, [])
            | Inr present \<Rightarrow>
                if present
                then (Inr (originalCreateChatCompletion args),
                      [Logged [JStr ''--- OpenAI Request (Tools): ---''],
                       Logged [JSON_stringify (get_member body ''tools'')],
                       Delegated args])
                else (Inr (originalCreateChatCompletion args), [Delegated args]))
      else (Inr (originalCreateChatCompletion args), [Delegated args]))"

section \<open>Example tools\<close>

text \<open>Concrete tools on which the theorems below are instantiated.\<close>

definition failing_tool :: "unit tool" where
  "failing_tool = \<lparr>tool_name = ''jupiter.get_quote'', tool_description = ''quote'',
     tool_parameters = (), tool_execute = (\<lambda>args. Threw (ErrorObj ''rate limited''))\<rparr>"

definition swap_tool :: "unit tool" where
  "swap_tool = \<lparr>tool_name = ''jupiter.swapTokens'', tool_description = ''Swap two tokens'',
     tool_parameters = (),
     tool_execute = (\<lambda>args. if args = JNull then Returned JNull else Returned JUndefined)\<rparr>"

definition verbose_tool :: "unit tool" where
  "verbose_tool = \<lparr>tool_name = ''coingecko.get_coin_prices'',
     tool_description = replicate 1200 CHR ''d'', tool_parameters = (),
     tool_execute = (\<lambda>args. Returned (JObj [(''bitcoin'', JNum 64000)]))\<rparr>"

definition direct_swap_tool :: "unit tool" where
  "direct_swap_tool = \<lparr>tool_name = ''jupiter.swap'', tool_description = ''Swap'',
     tool_parameters = (), tool_execute = (\<lambda>args. Returned (JStr ''swapped''))\<rparr>"

definition pairs_tool :: "unit tool" where
  "pairs_tool = \<lparr>tool_name = ''dexscreener.search_pairs'', tool_description = ''Search pairs'',
     tool_parameters = (), tool_execute = (\<lambda>args. Returned (JStr ''first''))\<rparr>"

definition pairs_tool' :: "unit tool" where
  "pairs_tool' = \<lparr>tool_name = ''dexscreener_search.pairs'', tool_description = ''Search pairs'',
     tool_parameters = (), tool_execute = (\<lambda>args. Returned (JStr ''second''))\<rparr>"

definition price_tool :: "unit tool" where
  "price_tool = \<lparr>tool_name = ''allora.price_prediction'', tool_description = ''Price prediction'',
     tool_parameters = (), tool_execute = (\<lambda>args. Returned (JStr ''up''))\<rparr>"

definition other_price_tool :: "unit tool" where
  "other_price_tool = \<lparr>tool_name = ''allora.get_price_prediction'',
     tool_description = ''Price prediction'', tool_parameters = (),
     tool_execute = (\<lambda>args. Returned (JStr ''down''))\<rparr>"



section \<open>JSON.parse reads back what JSON.stringify writes\<close>














































section \<open>Properties of the name format\<close>

lemma formatToolName_map:
  "formatToolName n = map (\<lambda>c. if c = CHR ''.'' then CHR ''_'' else c) n"
  by (induction n) simp_all

lemma formatToolName_no_dot: "CHR ''.'' \<notin> set (formatToolName n)"
  by (induction n) simp_all

section \<open>What a run returns, case by case\<close>

lemma sublist_middle: "sublist ys (xs @ ys @ zs)"
  unfolding sublist_def by blast

lemma sublist_end: "sublist ys (xs @ ys)"
  using sublist_middle [of ys xs "[]"] by simp

lemma run_unregistered:
  "toolNameMap name = None \<Longrightarrow>
   run name toolNameMap args =
     (Returned (JStr (''An error occurred while running '' @ name @ '': ''
                      @ ''Original tool not found for '' @ name)),
      [ConsoleError (''Error in capability '' @ name @ '':'')
         (ErrorObj (''Original tool not found for '' @ name))])"
  by (simp add: run_def try_block_def catch_block_def)

lemma run_execute_threw:
  "toolNameMap name = Some tool \<Longrightarrow> tool_execute tool args = Threw e \<Longrightarrow>
   run name toolNameMap args =
     (Returned (JStr (''An error occurred while running '' @ name @ '': '' @
        (case e of ErrorObj message \<Rightarrow> message | NonError _ \<Rightarrow> ''Unknown error''))),
      [Executed tool args, ConsoleError (''Error in capability '' @ name @ '':'') e])"
  by (simp add: run_def try_block_def catch_block_def)

lemma run_execute_returned:
  "toolNameMap name = Some tool \<Longrightarrow> tool_execute tool args = Returned response \<Longrightarrow>
   run name toolNameMap args =
     (case normalise response of
        Inr v \<Rightarrow> (Returned v, [Executed tool args])
      | Inl e \<Rightarrow>
          (Returned (JStr (''An error occurred while running '' @ name @ '': '' @
             (case e of ErrorObj message \<Rightarrow> message | NonError _ \<Rightarrow> ''Unknown error''))),
           [Executed tool args, ConsoleError (''Error in capability '' @ name @ '':'') e]))"
  by (simp add: run_def try_block_def catch_block_def split: sum.splits)

lemma run_execute_pending:
  "toolNameMap name = Some tool \<Longrightarrow> tool_execute tool args = Pending \<Longrightarrow>
   run name toolNameMap args = (Pending, [Executed tool args])"
  by (simp add: run_def try_block_def)

lemma run_swap_cases:
  "run_swap toolType name toolNameMap args = run name toolNameMap args
   \<or> snd (run_swap toolType name toolNameMap args) = []"
  by (simp add: run_swap_def split: sum.splits)

lemma run_swap_executed:
  "Executed tool args \<in> set (snd (run_swap toolType name toolNameMap args)) \<Longrightarrow>
   run_swap toolType name toolNameMap args = run name toolNameMap args"
  using run_swap_cases [of toolType name toolNameMap args] by auto

lemma toCapability_swap_Inr:
  assumes "toCapability_swap toolNameMap tool toolType = Inr (c, toolNameMap')"
  shows "cap_run c = run_swap toolType (cap_name c)"
    and "toolNameMap' = toolNameMap(cap_name c \<mapsto> tool)"
    and "cap_description c = tool_description tool"
    and "cap_schema c = tool_parameters tool"
  using assms
  by (auto simp: toCapability_swap_def Let_def split: property.splits if_splits)

lemma toCapability_swap_swap_tool:
  "toCapability_swap m swap_tool Jupiter =
     Inr (\<lparr>cap_name = ''swap'', cap_description = ''Swap two tokens'', cap_schema = (),
           cap_run = run_swap Jupiter ''swap''\<rparr>, m(''swap'' \<mapsto> swap_tool))"
  by (simp add: toCapability_swap_def swap_tool_def functionName_of_def pop_def
      get_property_def nameMap_def or_else_def Let_def)

lemma normalise_undefined:
  "normalise JUndefined = Inl (ErrorObj ''Cannot read properties of undefined (reading 'toString')'')"
  by (simp add: normalise_def typeof_def toString_def)

lemma normalise_null: "normalise JNull = Inr (JStr ''null'')"
  by (simp add: normalise_def typeof_def JSON_stringify_def)

lemma fst_coingecko_main:
  "fst (coingecko_main allTools) =
     map (\<lambda>tool. toCapability (truncate_description tool))
       (filter (\<lambda>tool. \<not> str_includes (tool_name tool) ''get_chain'') allTools)"
  by (simp add: coingecko_main_def Let_def)

lemma create_observed_no_body:
  "create_observed original [] = (Inr (original []), [Delegated []])"
  by (simp add: create_observed_def truthy_def)

lemma create_observed_primitive_body:
  "fst (create_observed original [JStr ''x'']) =
     Inl (ErrorObj ''Cannot use 'in' operator to search for 'tools' in x'')"
  by (simp add: create_observed_def truthy_def js_in_def)

lemma run_executions:
  assumes "toolNameMap name = Some tool"
  shows "executions (snd (run name toolNameMap args)) = [(tool, args)]"
proof (cases "tool_execute tool args")
  case (Returned response)
  then show ?thesis
    using assms by (cases "normalise response") (simp_all add: run_execute_returned)
next
  case (Threw e)
  then show ?thesis
    using assms by (simp add: run_execute_threw)
next
  case Pending
  then show ?thesis
    using assms by (simp add: run_execute_pending)
qed

lemma run_swap_executions:
  assumes "toolNameMap name = Some tool"
  shows "executions (snd (run_swap toolType name toolNameMap args)) =
           (if toolType = Jupiter \<and> name = ''swap'' \<and> js_in ''userPublicKey'' args \<noteq> Inr True
            then [] else [(tool, args)])"
  using run_executions [of toolNameMap name tool args] assms
  by (auto simp: run_swap_def split: sum.splits)

lemma run_cong_registry:
  "m name = m' name \<Longrightarrow> run name m args = run name m' args"
  by (simp add: run_def try_block_def)

lemma run_swap_cong_registry:
  "m name = m' name \<Longrightarrow> run_swap toolType name m args = run_swap toolType name m' args"
  using run_cong_registry [of m name m' args] by (simp only: run_swap_def)

lemma register_all_append:
  "register_all (xs @ ys) m = register_all ys (register_all xs m)"
  by (simp add: register_all_def)

lemma register_all_other:
  "\<forall>t \<in> set zs. formatToolName (tool_name t) \<noteq> name \<Longrightarrow> register_all zs m name = m name"
  by (induction zs arbitrary: m) (auto simp: register_all_def)

lemma register_all_last:
  assumes "\<forall>t \<in> set zs. formatToolName (tool_name t) \<noteq> formatToolName (tool_name t2)"
  shows "register_all (xs @ t2 # zs) m (formatToolName (tool_name t2)) = Some t2"
proof -
  have "register_all (xs @ t2 # zs) m = register_all zs (register_all (xs @ [t2]) m)"
    using register_all_append [of "xs @ [t2]" zs m] by simp
  moreover have "register_all (xs @ [t2]) m (formatToolName (tool_name t2)) = Some t2"
    by (simp add: register_all_def)
  ultimately show ?thesis
    using register_all_other [of zs "formatToolName (tool_name t2)" "register_all (xs @ [t2]) m"] assms by simp
qed

lemma toCapability_swap_direct_swap_tool:
  "toCapability_swap m direct_swap_tool Jupiter =
     Inr (\<lparr>cap_name = ''swap'', cap_description = ''Swap'', cap_schema = (),
           cap_run = run_swap Jupiter ''swap''\<rparr>, m(''swap'' \<mapsto> direct_swap_tool))"
  by (simp add: toCapability_swap_def direct_swap_tool_def functionName_of_def pop_def
      get_property_def nameMap_def or_else_def Let_def)

lemma cap_run_toCapability:
  "cap_run (toCapability tool) = run (cap_name (toCapability tool))"
  "cap_name (toCapability tool) = formatToolName (tool_name tool)"
  by (simp_all add: toCapability_def Let_def)

lemma toCapability_allora_price_tool:
  "toCapability_allora price_tool =
     Some \<lparr>cap_name = ''get_price_prediction'', cap_description = ''Price prediction'',
           cap_schema = (), cap_run = (\<lambda>toolNameMap. run_allora price_tool ''get_price_prediction'')\<rparr>"
  by (simp add: toCapability_allora_def price_tool_def functionName_of_def pop_def
      get_property_def nameMap_allora_def or_else_def Let_def)

lemma normalise_string: "normalise (JStr s) = Inr (JStr s)"
  by (simp add: normalise_def typeof_def toString_def)

text \<open>
  C1. Under a name that \<open>toolNameMap\<close> does not hold, and for every argument value,
  the closure of the DexScreener and CoinGecko scripts does not throw and does not stay
  pending: it returns a string, the string contains the name, and no tool is executed.
  (The capability that \<open>toCapability\<close> builds runs this closure under its own name.)
\<close>

theorem C1_unregistered_name:
  assumes "toolNameMap name = None"
  shows "(\<exists>s. fst (run name toolNameMap args) = Returned (JStr s) \<and> sublist name s)
         \<and> executions (snd (run name toolNameMap args)) = []"
proof -
  have "sublist name (''An error occurred while running '' @ name @ '': ''
                      @ ''Original tool not found for '' @ name)"
    by (rule sublist_middle)
  then show ?thesis
    using assms by (simp add: run_unregistered del: append.simps)
qed

theorem C1_unregistered_name_witness:
  "(Map.empty :: unit registry) ''nonexistent_tool'' = None
   \<and> (\<exists>s. fst (run ''nonexistent_tool'' (Map.empty :: unit registry) (JObj [])) = Returned (JStr s)
            \<and> sublist ''nonexistent_tool'' s)"
  using C1_unregistered_name [of "Map.empty :: unit registry" "''nonexistent_tool''" "JObj []"]
  by simp

text \<open>
  C2. When the tool registered under the name throws an \<open>Error\<close> from
  \<open>execute\<close>, the closure returns a string that contains the error's message; the
  exception does not reach the caller. This holds for the closure of the DexScreener and
  CoinGecko scripts, and for the closure of the swap script whenever it calls
  \<open>execute\<close> at all (its check of \<open>userPublicKey\<close> may return before that).
\<close>

theorem C2_execute_throws:
  assumes "toolNameMap name = Some tool"
    and "tool_execute tool args = Threw (ErrorObj message)"
  shows "(\<exists>s. fst (run name toolNameMap args) = Returned (JStr s) \<and> sublist message s)
         \<and> (Executed tool args \<in> set (snd (run_swap toolType name toolNameMap args)) \<longrightarrow>
              (\<exists>s. fst (run_swap toolType name toolNameMap args) = Returned (JStr s)
                    \<and> sublist message s))"
proof -
  have "run name toolNameMap args =
          (Returned (JStr (''An error occurred while running '' @ name @ '': '' @ message)),
           [Executed tool args,
            ConsoleError (''Error in capability '' @ name @ '':'') (ErrorObj message)])"
    using assms by (simp add: run_execute_threw)
  moreover have "sublist message ((''An error occurred while running '' @ name @ '': '') @ message)"
    by (rule sublist_end)
  ultimately have dex: "\<exists>s. fst (run name toolNameMap args) = Returned (JStr s) \<and> sublist message s"
    by simp
  then show ?thesis
    using run_swap_executed [of tool args toolType name toolNameMap] by auto
qed

theorem C2_execute_throws_witness:
  "[''get_quote'' \<mapsto> failing_tool] ''get_quote'' = Some failing_tool
   \<and> tool_execute failing_tool (JObj []) = Threw (ErrorObj ''rate limited'')
   \<and> (\<exists>s. fst (run ''get_quote'' [''get_quote'' \<mapsto> failing_tool] (JObj [])) = Returned (JStr s)
            \<and> sublist ''rate limited'' s)
   \<and> Executed failing_tool (JObj [])
        \<in> set (snd (run_swap Jupiter ''get_quote'' [''get_quote'' \<mapsto> failing_tool] (JObj [])))
   \<and> (\<exists>s. fst (run_swap Jupiter ''get_quote'' [''get_quote'' \<mapsto> failing_tool] (JObj []))
              = Returned (JStr s) \<and> sublist ''rate limited'' s)"
proof -
  have reg: "[''get_quote'' \<mapsto> failing_tool] ''get_quote'' = Some failing_tool"
    by simp
  have ex: "tool_execute failing_tool (JObj []) = Threw (ErrorObj ''rate limited'')"
    by (simp add: failing_tool_def)
  have ev: "Executed failing_tool (JObj [])
        \<in> set (snd (run_swap Jupiter ''get_quote'' [''get_quote'' \<mapsto> failing_tool] (JObj [])))"
    using run_execute_threw [of "[''get_quote'' \<mapsto> failing_tool]" "''get_quote''" failing_tool
        "JObj []" "ErrorObj ''rate limited''"] reg ex
    by (simp add: run_swap_def)
  show ?thesis
    using C2_execute_throws [of "[''get_quote'' \<mapsto> failing_tool]" "''get_quote''" failing_tool
        "JObj []" "''rate limited''" Jupiter] reg ex ev by blast
qed


text \<open>
  C3. In the CoinGecko script a tool whose description is longer than 1000 code units
  gets a capability whose description is the first 1000 code units of the original
  followed by \<open>... (truncated)\<close>, 1015 code units in all. The capabilities of the
  script are built from the tools that pass its name filter, each after this shortening.
  (This loop is the only place where a description is shortened.)
\<close>

theorem C3_long_description:
  assumes "length (tool_description tool) > 1000"
  shows "cap_description (toCapability (truncate_description tool)) =
           take 1000 (tool_description tool) @ ''... (truncated)''
         \<and> length (cap_description (toCapability (truncate_description tool))) = 1000 + 15
         \<and> fst (coingecko_main allTools) =
             map (\<lambda>tool. toCapability (truncate_description tool))
               (filter (\<lambda>tool. \<not> str_includes (tool_name tool) ''get_chain'') allTools)"
proof -
  have "tool_description tool \<noteq> []"
    using assms by auto
  then have "tool_description (truncate_description tool) =
      take 1000 (tool_description tool) @ ''... (truncated)''"
    using assms by (simp add: truncate_description_def)
  then show ?thesis
    using assms by (simp add: toCapability_def fst_coingecko_main Let_def)
qed

theorem C3_long_description_witness:
  "length (tool_description verbose_tool) > 1000
   \<and> cap_description (toCapability (truncate_description verbose_tool)) =
       replicate 1000 CHR ''d'' @ ''... (truncated)''
   \<and> fst (coingecko_main [verbose_tool]) = [toCapability (truncate_description verbose_tool)]"
proof -
  have long: "length (tool_description verbose_tool) > 1000"
    by (simp add: verbose_tool_def)
  have keep: "\<not> str_includes (tool_name verbose_tool) ''get_chain''"
    by (simp add: verbose_tool_def)
  have "take 1000 (tool_description verbose_tool) = replicate 1000 CHR ''d''"
    by (simp add: verbose_tool_def)
  then show ?thesis
    using C3_long_description [OF long, of "[verbose_tool]"] long keep by simp
qed

text \<open>
  C4, as the claim states it, fails on the swap script: two Jupiter tools are built one
  after the other under the name \<open>swap\<close>, the map resolves the name to the second,
  and a run on an argument object without \<open>userPublicKey\<close> returns the fixed error
  string without executing the second tool.
\<close>

theorem C4_shadowed_by_guard:
  "toCapability_swap Map.empty swap_tool Jupiter =
     Inr (\<lparr>cap_name = ''swap'', cap_description = ''Swap two tokens'', cap_schema = (),
           cap_run = run_swap Jupiter ''swap''\<rparr>, [''swap'' \<mapsto> swap_tool])
   \<and> toCapability_swap [''swap'' \<mapsto> swap_tool] direct_swap_tool Jupiter =
     Inr (\<lparr>cap_name = ''swap'', cap_description = ''Swap'', cap_schema = (),
           cap_run = run_swap Jupiter ''swap''\<rparr>, [''swap'' \<mapsto> direct_swap_tool])
   \<and> [''swap'' \<mapsto> direct_swap_tool] ''swap'' = Some direct_swap_tool
   \<and> run_swap Jupiter ''swap'' [''swap'' \<mapsto> direct_swap_tool] (JObj []) =
       (Returned (JStr ''Error: Missing userPublicKey for swap operation.''), [])
   \<and> (direct_swap_tool, JObj [])
       \<notin> set (executions (snd (run_swap Jupiter ''swap'' [''swap'' \<mapsto> direct_swap_tool] (JObj []))))"
  using toCapability_swap_swap_tool [of Map.empty]
    toCapability_swap_direct_swap_tool [of "[''swap'' \<mapsto> swap_tool]"]
  by (simp add: run_swap_def js_in_def)

text \<open>
  C4, amended. When two tools are registered in that order under the same formatted
  name, the map resolves the name to the later one and to no other tool, and a run of
  either capability executes the later tool and never the earlier one. In the
  DexScreener and CoinGecko scripts (registration loop over the tool list, no later tool
  of that name) every run executes it. In the swap script every run executes it except
  a run of a capability built for a Jupiter tool under the name \<open>swap\<close> whose
  argument has no \<open>userPublicKey\<close>: that run executes no tool.
\<close>

theorem C4_last_registration_wins:
  "(formatToolName (tool_name t1) = formatToolName (tool_name t2) \<longrightarrow>
    (\<forall>t \<in> set zs. formatToolName (tool_name t) \<noteq> formatToolName (tool_name t2)) \<longrightarrow>
      register_all (xs @ t1 # ys @ t2 # zs) m (cap_name (toCapability t1)) = Some t2
      \<and> (\<forall>t. register_all (xs @ t1 # ys @ t2 # zs) m (cap_name (toCapability t1)) = Some t \<longrightarrow> t = t2)
      \<and> executions (snd (cap_run (toCapability t1) (register_all (xs @ t1 # ys @ t2 # zs) m) args))
          = [(t2, args)]
      \<and> executions (snd (cap_run (toCapability t2) (register_all (xs @ t1 # ys @ t2 # zs) m) args))
          = [(t2, args)])
   \<and> (toCapability_swap m t1 ty1 = Inr (c1, m1) \<longrightarrow>
      toCapability_swap m1 t2 ty2 = Inr (c2, m2) \<longrightarrow>
      cap_name c1 = cap_name c2 \<longrightarrow>
        m2 (cap_name c1) = Some t2
        \<and> (\<forall>t. m2 (cap_name c1) = Some t \<longrightarrow> t = t2)
        \<and> executions (snd (cap_run c1 m2 args)) =
            (if ty1 = Jupiter \<and> cap_name c1 = ''swap'' \<and> js_in ''userPublicKey'' args \<noteq> Inr True
             then [] else [(t2, args)])
        \<and> executions (snd (cap_run c2 m2 args)) =
            (if ty2 = Jupiter \<and> cap_name c2 = ''swap'' \<and> js_in ''userPublicKey'' args \<noteq> Inr True
             then [] else [(t2, args)]))"
proof (intro conjI impI)
  assume same: "formatToolName (tool_name t1) = formatToolName (tool_name t2)"
    and later: "\<forall>t \<in> set zs. formatToolName (tool_name t) \<noteq> formatToolName (tool_name t2)"
  let ?m = "register_all (xs @ t1 # ys @ t2 # zs) m"
  have "register_all ((xs @ t1 # ys) @ t2 # zs) m (formatToolName (tool_name t2)) = Some t2"
    using later by (rule register_all_last)
  then have reg: "?m (formatToolName (tool_name t2)) = Some t2"
    by simp
  show "?m (cap_name (toCapability t1)) = Some t2"
    using reg same by (simp add: cap_run_toCapability)
  then show "\<forall>t. ?m (cap_name (toCapability t1)) = Some t \<longrightarrow> t = t2"
    by simp
  show "executions (snd (cap_run (toCapability t1) ?m args)) = [(t2, args)]"
    using run_executions [of ?m "formatToolName (tool_name t2)" t2 args] reg same
    by (simp add: cap_run_toCapability)
  show "executions (snd (cap_run (toCapability t2) ?m args)) = [(t2, args)]"
    using run_executions [of ?m "formatToolName (tool_name t2)" t2 args] reg
    by (simp add: cap_run_toCapability)
next
  assume b1: "toCapability_swap m t1 ty1 = Inr (c1, m1)"
    and b2: "toCapability_swap m1 t2 ty2 = Inr (c2, m2)"
    and same: "cap_name c1 = cap_name c2"
  have reg: "m2 (cap_name c2) = Some t2"
    using toCapability_swap_Inr(2) [OF b2] by simp
  show "m2 (cap_name c1) = Some t2"
    using reg same by simp
  then show "\<forall>t. m2 (cap_name c1) = Some t \<longrightarrow> t = t2"
    by simp
  show "executions (snd (cap_run c1 m2 args)) =
      (if ty1 = Jupiter \<and> cap_name c1 = ''swap'' \<and> js_in ''userPublicKey'' args \<noteq> Inr True
       then [] else [(t2, args)])"
    using run_swap_executions [of m2 "cap_name c2" t2 ty1 args] reg same
      toCapability_swap_Inr(1) [OF b1]
    by simp
  show "executions (snd (cap_run c2 m2 args)) =
      (if ty2 = Jupiter \<and> cap_name c2 = ''swap'' \<and> js_in ''userPublicKey'' args \<noteq> Inr True
       then [] else [(t2, args)])"
    using run_swap_executions [of m2 "cap_name c2" t2 ty2 args] reg
      toCapability_swap_Inr(1) [OF b2]
    by simp
qed

theorem C4_last_registration_wins_witness:
  "formatToolName (tool_name pairs_tool) = formatToolName (tool_name pairs_tool')
   \<and> register_all [pairs_tool, pairs_tool'] Map.empty (cap_name (toCapability pairs_tool))
       = Some pairs_tool'
   \<and> executions (snd (cap_run (toCapability pairs_tool)
         (register_all [pairs_tool, pairs_tool'] Map.empty) (JObj [])))
       = [(pairs_tool', JObj [])]
   \<and> toCapability_swap Map.empty swap_tool Jupiter =
       Inr (\<lparr>cap_name = ''swap'', cap_description = ''Swap two tokens'', cap_schema = (),
             cap_run = run_swap Jupiter ''swap''\<rparr>, [''swap'' \<mapsto> swap_tool])
   \<and> toCapability_swap [''swap'' \<mapsto> swap_tool] direct_swap_tool Jupiter =
       Inr (\<lparr>cap_name = ''swap'', cap_description = ''Swap'', cap_schema = (),
             cap_run = run_swap Jupiter ''swap''\<rparr>, [''swap'' \<mapsto> direct_swap_tool])
   \<and> [''swap'' \<mapsto> direct_swap_tool] ''swap'' = Some direct_swap_tool
   \<and> executions (snd (run_swap Jupiter ''swap'' [''swap'' \<mapsto> direct_swap_tool]
         (JObj [(''userPublicKey'', JStr ''pk'')])))
       = [(direct_swap_tool, JObj [(''userPublicKey'', JStr ''pk'')])]"
proof -
  let ?c1 = "\<lparr>cap_name = ''swap'', cap_description = ''Swap two tokens'', cap_schema = (),
              cap_run = run_swap Jupiter ''swap''\<rparr> :: unit capability"
  let ?c2 = "\<lparr>cap_name = ''swap'', cap_description = ''Swap'', cap_schema = (),
              cap_run = run_swap Jupiter ''swap''\<rparr> :: unit capability"
  have same: "formatToolName (tool_name pairs_tool) = formatToolName (tool_name pairs_tool')"
    by (simp add: pairs_tool_def pairs_tool'_def)
  have b1: "toCapability_swap Map.empty swap_tool Jupiter = Inr (?c1, [''swap'' \<mapsto> swap_tool])"
    using toCapability_swap_swap_tool [of Map.empty] by simp
  have b2: "toCapability_swap [''swap'' \<mapsto> swap_tool] direct_swap_tool Jupiter =
      Inr (?c2, [''swap'' \<mapsto> direct_swap_tool])"
    using toCapability_swap_direct_swap_tool [of "[''swap'' \<mapsto> swap_tool]"] by simp
  have key: "js_in ''userPublicKey'' (JObj [(''userPublicKey'', JStr ''pk'')]) = Inr True"
    by (simp add: js_in_def)
  have dex: "register_all [pairs_tool, pairs_tool'] Map.empty (cap_name (toCapability pairs_tool))
       = Some pairs_tool'
     \<and> executions (snd (cap_run (toCapability pairs_tool)
         (register_all [pairs_tool, pairs_tool'] Map.empty) (JObj [])))
       = [(pairs_tool', JObj [])]"
    using C4_last_registration_wins [where ?t1.0 = pairs_tool and ?t2.0 = pairs_tool'
        and xs = "[]" and ys = "[]" and zs = "[]" and m = Map.empty and args = "JObj []"] same
    by simp
  have swap: "executions (snd (cap_run ?c2 [''swap'' \<mapsto> direct_swap_tool]
         (JObj [(''userPublicKey'', JStr ''pk'')])))
       = [(direct_swap_tool, JObj [(''userPublicKey'', JStr ''pk'')])]"
    using C4_last_registration_wins [where ?t1.0 = swap_tool and ?t2.0 = direct_swap_tool
        and m = Map.empty and ?ty1.0 = Jupiter and ?ty2.0 = Jupiter and ?c1.0 = ?c1 and ?c2.0 = ?c2
        and ?m1.0 = "[''swap'' \<mapsto> swap_tool]" and ?m2.0 = "[''swap'' \<mapsto> direct_swap_tool]"
        and args = "JObj [(''userPublicKey'', JStr ''pk'')]"] b1 b2 key
    by simp
  show ?thesis
    using same dex b1 b2 swap by simp
qed

text \<open>
  C5, as the claim states it, fails on the Allora script: its closure keeps the tool it
  was built from. Whatever a map holds under the capability's name, here another tool,
  a run executes the tool of the build and returns that tool's answer.
\<close>

theorem C5_allora_keeps_its_tool:
  "toCapability_allora price_tool =
     Some \<lparr>cap_name = ''get_price_prediction'', cap_description = ''Price prediction'',
           cap_schema = (), cap_run = (\<lambda>toolNameMap. run_allora price_tool ''get_price_prediction'')\<rparr>
   \<and> [''get_price_prediction'' \<mapsto> other_price_tool] ''get_price_prediction'' = Some other_price_tool
   \<and> executions (snd (cap_run (the (toCapability_allora price_tool))
         [''get_price_prediction'' \<mapsto> other_price_tool] (JObj [])))
       = [(price_tool, JObj [])]
   \<and> fst (cap_run (the (toCapability_allora price_tool))
         [''get_price_prediction'' \<mapsto> other_price_tool] (JObj [])) = Returned (JStr ''up'')
   \<and> tool_execute other_price_tool (JObj []) = Returned (JStr ''down'')
   \<and> price_tool \<noteq> other_price_tool"
proof -
  have "tool_execute price_tool (JObj []) = Returned (JStr ''up'')"
    by (simp add: price_tool_def)
  then have "run_allora price_tool ''get_price_prediction'' (JObj []) =
      (Returned (JStr ''up''),
       [ConsoleLog ''Running capability get_price_prediction with args:'' [JObj []],
        Executed price_tool (JObj []),
        ConsoleLog (''Tool '' @ tool_name price_tool @ '' response:'') [JStr ''up'']])"
    by (simp add: run_allora_def normalise_string)
  moreover have "price_tool \<noteq> other_price_tool"
  proof
    assume "price_tool = other_price_tool"
    then have "tool_name price_tool = tool_name other_price_tool" by simp
    then show False by (simp add: price_tool_def other_price_tool_def)
  qed
  moreover have "tool_execute other_price_tool (JObj []) = Returned (JStr ''down'')"
    by (simp add: other_price_tool_def)
  ultimately show ?thesis
    by (simp add: toCapability_allora_price_tool)
qed

text \<open>
  C5, amended. In the DexScreener, CoinGecko and swap scripts the closure keeps the
  formatted name and not the tool: two tools of the same formatted name give the same
  closure, a run depends on \<open>toolNameMap\<close> only through the entry under that name
  at the time of the call, and after a tool \<open>t\<close> has been written under the name a
  run executes \<open>t\<close> (in the swap script unless the check of \<open>userPublicKey\<close>
  returns first, and then no tool is executed). The closure of the Allora script keeps
  the tool itself.
\<close>

theorem C5_lookup_at_call_time:
  "(formatToolName (tool_name tool) = formatToolName (tool_name tool') \<longrightarrow>
      m (formatToolName (tool_name tool)) = m' (formatToolName (tool_name tool)) \<longrightarrow>
        cap_run (toCapability tool) m args = cap_run (toCapability tool') m' args)
   \<and> executions (snd (cap_run (toCapability tool) (m(cap_name (toCapability tool) \<mapsto> t)) args))
       = [(t, args)]
   \<and> (toCapability_swap m tool toolType = Inr (c, m1) \<longrightarrow>
        (m2 (cap_name c) = m3 (cap_name c) \<longrightarrow> cap_run c m2 args = cap_run c m3 args)
        \<and> executions (snd (cap_run c (m1(cap_name c \<mapsto> t)) args)) =
            (if toolType = Jupiter \<and> cap_name c = ''swap'' \<and> js_in ''userPublicKey'' args \<noteq> Inr True
             then [] else [(t, args)]))"
proof (intro conjI impI)
  assume "formatToolName (tool_name tool) = formatToolName (tool_name tool')"
    and "m (formatToolName (tool_name tool)) = m' (formatToolName (tool_name tool))"
  then show "cap_run (toCapability tool) m args = cap_run (toCapability tool') m' args"
    using run_cong_registry [of m "formatToolName (tool_name tool)" m' args]
    by (simp add: cap_run_toCapability)
next
  show "executions (snd (cap_run (toCapability tool) (m(cap_name (toCapability tool) \<mapsto> t)) args))
       = [(t, args)]"
    using run_executions [of "m(cap_name (toCapability tool) \<mapsto> t)" "cap_name (toCapability tool)" t args]
    by (simp add: cap_run_toCapability(1))
next
  assume b: "toCapability_swap m tool toolType = Inr (c, m1)"
  show "cap_run c m2 args = cap_run c m3 args" if "m2 (cap_name c) = m3 (cap_name c)"
    using that run_swap_cong_registry [of m2 "cap_name c" m3 toolType args]
      toCapability_swap_Inr(1) [OF b]
    by simp
  show "executions (snd (cap_run c (m1(cap_name c \<mapsto> t)) args)) =
      (if toolType = Jupiter \<and> cap_name c = ''swap'' \<and> js_in ''userPublicKey'' args \<noteq> Inr True
       then [] else [(t, args)])"
    using run_swap_executions [of "m1(cap_name c \<mapsto> t)" "cap_name c" t toolType args]
      toCapability_swap_Inr(1) [OF b]
    by simp
qed

theorem C5_lookup_at_call_time_witness:
  "formatToolName (tool_name pairs_tool) = formatToolName (tool_name pairs_tool')
   \<and> cap_run (toCapability pairs_tool) [''dexscreener_search_pairs'' \<mapsto> pairs_tool] (JObj [])
       = cap_run (toCapability pairs_tool') [''dexscreener_search_pairs'' \<mapsto> pairs_tool] (JObj [])
   \<and> executions (snd (cap_run (toCapability pairs_tool)
         [''dexscreener_search_pairs'' \<mapsto> pairs_tool'] (JObj [])))
       = [(pairs_tool', JObj [])]
   \<and> toCapability_swap Map.empty swap_tool Jupiter =
       Inr (\<lparr>cap_name = ''swap'', cap_description = ''Swap two tokens'', cap_schema = (),
             cap_run = run_swap Jupiter ''swap''\<rparr>, [''swap'' \<mapsto> swap_tool])
   \<and> executions (snd (run_swap Jupiter ''swap'' [''swap'' \<mapsto> direct_swap_tool]
         (JObj [(''userPublicKey'', JStr ''pk'')])))
       = [(direct_swap_tool, JObj [(''userPublicKey'', JStr ''pk'')])]"
proof -
  let ?c = "\<lparr>cap_name = ''swap'', cap_description = ''Swap two tokens'', cap_schema = (),
             cap_run = run_swap Jupiter ''swap''\<rparr> :: unit capability"
  have same: "formatToolName (tool_name pairs_tool) = formatToolName (tool_name pairs_tool')"
    by (simp add: pairs_tool_def pairs_tool'_def)
  have name: "cap_name (toCapability pairs_tool) = ''dexscreener_search_pairs''"
    by (simp add: cap_run_toCapability pairs_tool_def)
  have b: "toCapability_swap Map.empty swap_tool Jupiter = Inr (?c, [''swap'' \<mapsto> swap_tool])"
    using toCapability_swap_swap_tool [of Map.empty] by simp
  have key: "js_in ''userPublicKey'' (JObj [(''userPublicKey'', JStr ''pk'')]) = Inr True"
    by (simp add: js_in_def)
  have dex: "cap_run (toCapability pairs_tool) [''dexscreener_search_pairs'' \<mapsto> pairs_tool] (JObj [])
       = cap_run (toCapability pairs_tool') [''dexscreener_search_pairs'' \<mapsto> pairs_tool] (JObj [])
     \<and> executions (snd (cap_run (toCapability pairs_tool)
         [''dexscreener_search_pairs'' \<mapsto> pairs_tool'] (JObj [])))
       = [(pairs_tool', JObj [])]"
    using C5_lookup_at_call_time [where tool = pairs_tool and tool' = pairs_tool'
        and m = "[''dexscreener_search_pairs'' \<mapsto> pairs_tool]"
        and m' = "[''dexscreener_search_pairs'' \<mapsto> pairs_tool]" and args = "JObj []"]
      C5_lookup_at_call_time [where tool = pairs_tool and m = Map.empty and t = pairs_tool'
        and args = "JObj []"]
      same name
    by simp
  have swap: "executions (snd (cap_run ?c ([''swap'' \<mapsto> swap_tool](cap_name ?c \<mapsto> direct_swap_tool))
         (JObj [(''userPublicKey'', JStr ''pk'')])))
       = [(direct_swap_tool, JObj [(''userPublicKey'', JStr ''pk'')])]"
    using C5_lookup_at_call_time [where tool = swap_tool and tool' = swap_tool and m = Map.empty
        and m' = Map.empty and toolType = Jupiter
        and c = ?c and ?m1.0 = "[''swap'' \<mapsto> swap_tool]" and t = direct_swap_tool
        and ?m2.0 = Map.empty and ?m3.0 = Map.empty
        and args = "JObj [(''userPublicKey'', JStr ''pk'')]", THEN conjunct2, THEN conjunct2] b key
    by simp
  have upd: "[''swap'' \<mapsto> swap_tool](cap_name ?c \<mapsto> direct_swap_tool) = [''swap'' \<mapsto> direct_swap_tool]"
    by simp
  show ?thesis
    using same dex b swap unfolding upd by simp
qed




text \<open>
  C7. \<open>formatToolName\<close> is a function of its argument alone (it reads no state, so
  two calls on the same name give the same result); the result has the length of the
  name, carries an underscore at every position where the name has a dot and the name's
  own character at every other position, and contains no dot.
\<close>

theorem C7_formatToolName:
  "formatToolName n = formatToolName n
   \<and> length (formatToolName n) = length n
   \<and> formatToolName n = map (\<lambda>c. if c = CHR ''.'' then CHR ''_'' else c) n
   \<and> CHR ''.'' \<notin> set (formatToolName n)"
  by (simp add: formatToolName_no_dot) (simp add: formatToolName_map)

text \<open>
  C8. A capability of the swap script that was built for a Jupiter tool under the name
  \<open>swap\<close>, run on an argument object without an own property \<open>userPublicKey\<close>,
  returns the fixed string \<open>Error: Missing userPublicKey for swap operation.\<close> and
  does nothing else: no tool is executed, whatever \<open>toolNameMap\<close> holds.
\<close>

theorem C8_missing_userPublicKey:
  assumes "toCapability_swap toolNameMap tool Jupiter = Inr (c, toolNameMap')"
    and "cap_name c = ''swap''"
    and "''userPublicKey'' \<notin> fst ` set ps"
  shows "cap_run c m (JObj ps) =
           (Returned (JStr ''Error: Missing userPublicKey for swap operation.''), [])
         \<and> executions (snd (cap_run c m (JObj ps))) = []"
  using assms toCapability_swap_Inr(1) [OF assms(1)]
  by (simp add: run_swap_def js_in_def)

theorem C8_missing_userPublicKey_witness:
  "toCapability_swap Map.empty swap_tool Jupiter =
     Inr (\<lparr>cap_name = ''swap'', cap_description = ''Swap two tokens'', cap_schema = (),
           cap_run = run_swap Jupiter ''swap''\<rparr>, [''swap'' \<mapsto> swap_tool])
   \<and> ''userPublicKey'' \<notin> fst ` set [(''inputMint'', JStr ''So11''), (''amount'', JNum 1)]
   \<and> run_swap Jupiter ''swap'' [''swap'' \<mapsto> swap_tool]
         (JObj [(''inputMint'', JStr ''So11''), (''amount'', JNum 1)]) =
       (Returned (JStr ''Error: Missing userPublicKey for swap operation.''), [])"
  using C8_missing_userPublicKey [of Map.empty swap_tool
      "\<lparr>cap_name = ''swap'', cap_description = ''Swap two tokens'', cap_schema = (),
        cap_run = run_swap Jupiter ''swap''\<rparr>" "[''swap'' \<mapsto> swap_tool]"
      "[(''inputMint'', JStr ''So11''), (''amount'', JNum 1)]" "[''swap'' \<mapsto> swap_tool]"]
    toCapability_swap_swap_tool [of Map.empty]
  by simp


text \<open>
  C10. When the registered tool's \<open>execute\<close> returns \<open>undefined\<close>, reading
  \<open>toString\<close> off the result throws inside the \<open>try\<close>, and the \<open>catch\<close>
  returns the error string that names the capability; when it returns \<open>null\<close>, the
  closure returns the text \<open>null\<close>. In both cases the closure returns a string. This
  holds for the closure of the DexScreener and CoinGecko scripts, and for the closure of
  the swap script whenever it calls \<open>execute\<close>.
\<close>

theorem C10_undefined_result:
  assumes "toolNameMap name = Some tool"
  shows "(tool_execute tool args = Returned JUndefined \<longrightarrow>
            fst (run name toolNameMap args) =
              Returned (JStr (''An error occurred while running '' @ name @ '': ''
                @ ''Cannot read properties of undefined (reading 'toString')''))
            \<and> (Executed tool args \<in> set (snd (run_swap toolType name toolNameMap args)) \<longrightarrow>
                 fst (run_swap toolType name toolNameMap args) =
                   Returned (JStr (''An error occurred while running '' @ name @ '': ''
                     @ ''Cannot read properties of undefined (reading 'toString')''))))
         \<and> (tool_execute tool args = Returned JNull \<longrightarrow>
            fst (run name toolNameMap args) = Returned (JStr ''null'')
            \<and> (Executed tool args \<in> set (snd (run_swap toolType name toolNameMap args)) \<longrightarrow>
                 fst (run_swap toolType name toolNameMap args) = Returned (JStr ''null'')))"
proof -
  have undef: "fst (run name toolNameMap args) =
      Returned (JStr (''An error occurred while running '' @ name @ '': ''
        @ ''Cannot read properties of undefined (reading 'toString')''))"
    if "tool_execute tool args = Returned JUndefined"
    using assms that by (simp add: run_execute_returned normalise_undefined)
  have null: "fst (run name toolNameMap args) = Returned (JStr ''null'')"
    if "tool_execute tool args = Returned JNull"
    using assms that by (simp add: run_execute_returned normalise_null)
  have swap: "run_swap toolType name toolNameMap args = run name toolNameMap args"
    if "Executed tool args \<in> set (snd (run_swap toolType name toolNameMap args))"
    using that by (rule run_swap_executed)
  show ?thesis
    using undef null swap by auto
qed

theorem C10_undefined_result_witness:
  "[''swap'' \<mapsto> swap_tool] ''swap'' = Some swap_tool
   \<and> tool_execute swap_tool (JObj [(''userPublicKey'', JStr ''pk'')]) = Returned JUndefined
   \<and> fst (run ''swap'' [''swap'' \<mapsto> swap_tool] (JObj [(''userPublicKey'', JStr ''pk'')])) =
       Returned (JStr ''An error occurred while running swap: Cannot read properties of undefined (reading 'toString')'')
   \<and> Executed swap_tool (JObj [(''userPublicKey'', JStr ''pk'')])
       \<in> set (snd (run_swap Jupiter ''swap'' [''swap'' \<mapsto> swap_tool]
                      (JObj [(''userPublicKey'', JStr ''pk'')])))
   \<and> fst (run_swap Jupiter ''swap'' [''swap'' \<mapsto> swap_tool]
            (JObj [(''userPublicKey'', JStr ''pk'')])) =
       Returned (JStr ''An error occurred while running swap: Cannot read properties of undefined (reading 'toString')'')
   \<and> tool_execute swap_tool JNull = Returned JNull
   \<and> fst (run ''swap'' [''swap'' \<mapsto> swap_tool] JNull) = Returned (JStr ''null'')
   \<and> Executed swap_tool JNull \<in> set (snd (run_swap Dexscreener ''swap'' [''swap'' \<mapsto> swap_tool] JNull))
   \<and> fst (run_swap Dexscreener ''swap'' [''swap'' \<mapsto> swap_tool] JNull) = Returned (JStr ''null'')"
proof -
  let ?m = "[''swap'' \<mapsto> swap_tool]"
  let ?a = "JObj [(''userPublicKey'', JStr ''pk'')]"
  have reg: "?m ''swap'' = Some swap_tool" by simp
  have ex1: "tool_execute swap_tool ?a = Returned JUndefined" by (simp add: swap_tool_def)
  have ex2: "tool_execute swap_tool JNull = Returned JNull" by (simp add: swap_tool_def)
  have ev1: "Executed swap_tool ?a \<in> set (snd (run_swap Jupiter ''swap'' ?m ?a))"
    using run_execute_returned [of ?m "''swap''" swap_tool ?a JUndefined] reg ex1
    by (simp add: run_swap_def js_in_def normalise_undefined)
  have ev2: "Executed swap_tool JNull \<in> set (snd (run_swap Dexscreener ''swap'' ?m JNull))"
    using run_execute_returned [of ?m "''swap''" swap_tool JNull JNull] reg ex2
    by (simp add: run_swap_def normalise_null)
  show ?thesis
    using C10_undefined_result [of ?m "''swap''" swap_tool ?a Jupiter]
      C10_undefined_result [of ?m "''swap''" swap_tool JNull Dexscreener]
      reg ex1 ex2 ev1 ev2
    by simp
qed

end
